theory Spec2Isabelle
  imports Main
begin

chapter \<open>The model\<close>

section \<open>JavaScript values and errors\<close>

text \<open>
  A parsed request body and a reply are JavaScript values. An object is the list of its own
  properties in insertion order (the keys of one object are distinct).
\<close>

datatype jsval =
    JUndefined
  | JNull
  | JBool bool
  | JNum int
  | JStr string
  | JArr "jsval list"
  | JObj "(string \<times> jsval) list"

datatype js_error = TypeError | Thrown string

text \<open>
  The member access \<open>v.k\<close> for a key \<open>k\<close> that no prototype defines (\<open>__wg\<close>,
  \<open>clientRequest\<close>, \<open>user\<close>, \<open>report\<close> and the like): it throws a \<open>TypeError\<close> on
  \<open>undefined\<close> and \<open>null\<close>, reads the own property of an object, and is \<open>undefined\<close>
  on every other value.
\<close>

fun get_prop :: "jsval \<Rightarrow> string \<Rightarrow> js_error + jsval" where
  "get_prop JUndefined k = Inl TypeError"
| "get_prop JNull k = Inl TypeError"
| "get_prop (JObj kvs) k = Inr (case map_of kvs k of None \<Rightarrow> JUndefined | Some v \<Rightarrow> v)"
| "get_prop v k = Inr JUndefined"

text \<open>A header of Node's \<open>IncomingHttpHeaders\<close> is \<open>string | string[] | undefined\<close>.\<close>

datatype header_value = HString string | HArray "string list"

type_synonym headers = "string \<Rightarrow> header_value option"

section \<open>Correlation ids: \<open>genReqId\<close> of server.ts\<close>

text \<open>
  \<^verbatim>\<open>
  let id = 0
  genReqId: req => {
    if (req.headers['x-request-id']) {
      return req.headers['x-request-id']?.toString()
    }
    return `${++id}`
  }
  \<close>
  JavaScript truthiness: \<open>undefined\<close> and the empty string are falsy, every array is truthy.
\<close>

fun truthy_header :: "header_value option \<Rightarrow> bool" where
  "truthy_header None = False"
| "truthy_header (Some (HString s)) = (s \<noteq> [])"
| "truthy_header (Some (HArray xs)) = True"

text \<open>\<open>Array.prototype.toString\<close> joins the elements with a comma.\<close>

fun join_comma :: "string list \<Rightarrow> string" where
  "join_comma [] = []"
| "join_comma [x] = x"
| "join_comma (x # y # ys) = x @ '','' @ join_comma (y # ys)"

fun header_toString :: "header_value \<Rightarrow> string" where
  "header_toString (HString s) = s"
| "header_toString (HArray xs) = join_comma xs"

text \<open>
  The counter \<open>id\<close> is a JavaScript number (an IEEE double) that only ever holds the
  integers reached from \<open>0\<close> by \<open>++id\<close>. The increment is exact below \<open>2^53\<close>; at
  \<open>2^53\<close> the sum \<open>2^53 + 1\<close> rounds back to \<open>2^53\<close>.
\<close>

definition js_incr :: "nat \<Rightarrow> nat" where
  "js_incr n = (if n < 2 ^ 53 then n + 1 else n)"

definition digit_char :: "nat \<Rightarrow> char" where
  "digit_char d = ''0123456789'' ! d"

text \<open>The template literal prints an integer below \<open>10^21\<close> in decimal.\<close>

function string_of_nat :: "nat \<Rightarrow> string" where
  "string_of_nat n =
     (if n < 10 then [digit_char n] else string_of_nat (n div 10) @ [digit_char (n mod 10)])"
  by pat_completeness auto
termination
  by (relation "measure (\<lambda>n. n)") auto

declare string_of_nat.simps [simp del]

text \<open>One call: the id handed to the request, and the counter afterwards.\<close>

definition genReqId :: "headers \<Rightarrow> nat \<Rightarrow> string \<times> nat" where
  "genReqId hdrs c =
     (if truthy_header (hdrs ''x-request-id'') then
        (case hdrs ''x-request-id'' of
           Some v \<Rightarrow> (header_toString v, c)
         | None \<Rightarrow> ([], c))
      else (string_of_nat (js_incr c), js_incr c))"

text \<open>The requests of one process in arrival order, each given by its headers.\<close>

fun assign_ids :: "headers list \<Rightarrow> nat \<Rightarrow> string list \<times> nat" where
  "assign_ids [] c = ([], c)"
| "assign_ids (h # hs) c =
     (let (i, c') = genReqId h c; (is, c'') = assign_ids hs c' in (i # is, c''))"

text \<open>How many of the first \<open>k\<close> requests got a generated id.\<close>

definition generated_before :: "headers list \<Rightarrow> nat \<Rightarrow> nat" where
  "generated_before hs k =
     length (filter (\<lambda>h. \<not> truthy_header (h ''x-request-id'')) (take k hs))"

text \<open>A request that carries only the given \<open>x-request-id\<close> header, and one that carries none.\<close>

definition with_request_id :: "header_value \<Rightarrow> headers" where
  "with_request_id v = (\<lambda>k. if k = ''x-request-id'' then Some v else None)"

definition no_headers :: headers where
  "no_headers = (\<lambda>k. None)"

section \<open>The request context: the \<open>preHandler\<close> hook of server.ts\<close>

text \<open>
  \<open>OperationsClient\<close> (operations.client.ts) is outside the sources at hand: an instance
  is represented by the options its constructor received. \<open>customFetch\<close> is always the
  imported \<open>fetch\<close> and the logger is the one imported logger, so neither is a field.
\<close>

record operations_client =
  baseURL :: string
  requestTimeoutMs :: nat
  clientRequest :: jsval

record request_ctx =
  user :: jsval
  ctx_clientRequest :: jsval
  operationsClient :: operations_client

text \<open>
  The request as the hooks and handlers see it. \<open>decorateRequest('ctx', null)\<close> makes
  \<open>ctx\<close> start as \<open>null\<close>, which is \<open>None\<close> here.
\<close>

record request =
  body :: jsval
  req_headers :: headers
  req_method :: string
  query :: jsval
  ctx :: "request_ctx option"

text \<open>
  What a hook or handler did, in the order it did it: the construction of the client, the
  assignment to \<open>req.ctx\<close>, and the call of the extension's handler with the context it
  was handed.
\<close>

datatype event =
    NewOperationsClient operations_client
  | SetCtx request_ctx
  | CallHandler "request_ctx option"

text \<open>
  \<^verbatim>\<open>
  const clientRequest = req.body.__wg.clientRequest
  const operationsClient = new OperationsClient({
    baseURL: config.apiBaseURL, customFetch: fetch, requestTimeoutMs: 3000, clientRequest })
  req.ctx = { logger, user: req.body.__wg.user!, clientRequest, operationsClient }
  \<close>
  The \<open>!\<close> of TypeScript is erased at run time. The hook returns the request it changed and
  what it did, or the error it threw.
\<close>

definition preHandler :: "string \<Rightarrow> request \<Rightarrow> js_error + (request \<times> event list)" where
  "preHandler apiBaseURL req =
     (case get_prop (body req) ''__wg'' of
        Inl e \<Rightarrow> Inl e
      | Inr wg \<Rightarrow>
         (case get_prop wg ''clientRequest'' of
            Inl e \<Rightarrow> Inl e
          | Inr cr \<Rightarrow>
             (let oc = \<lparr>baseURL = apiBaseURL, requestTimeoutMs = 3000, clientRequest = cr\<rparr> in
              case get_prop wg ''user'' of
                Inl e \<Rightarrow> Inl e
              | Inr u \<Rightarrow>
                 (let c = \<lparr>user = u, ctx_clientRequest = cr, operationsClient = oc\<rparr> in
                  Inr (req\<lparr>ctx := Some c\<rparr>, [NewOperationsClient oc, SetCtx c])))))"

section \<open>The proxy registry (proxy.ts)\<close>

text \<open>The normalized view of the request that a proxy handler receives.\<close>

record proxy_request =
  pr_body :: jsval
  pr_headers :: headers
  pr_method :: string
  pr_query :: jsval

text \<open>The extension's own handler (\<open>ProxyConfig.handler\<close>); \<open>'r\<close> is what it does to the reply.\<close>

type_synonym 'r proxy_config = "proxy_request \<Rightarrow> request_ctx option \<Rightarrow> 'r"

text \<open>
  The handler of the route that \<open>registerProxyHandler\<close> mounts:
  \<^verbatim>\<open>
  async handler(req, reply) {
    const request = { body: req.body, headers: req.headers, method: req.method, query: req.query };
    await config.handler(request, req.ctx, reply)
  }
  \<close>
\<close>

definition proxy_route_handler :: "'r proxy_config \<Rightarrow> request \<Rightarrow> 'r \<times> event list" where
  "proxy_route_handler config req =
     (let request = \<lparr>pr_body = body req, pr_headers = req_headers req,
                     pr_method = req_method req, pr_query = query req\<rparr>
      in (config request (ctx req), [CallHandler (ctx req)]))"

record 'r route_options =
  ro_method :: "string list"
  ro_url :: string
  ro_kind :: string
  ro_proxyPath :: string
  ro_handler :: "request \<Rightarrow> 'r \<times> event list"

text \<open>
  The transport and the helpers of utils.ts and types/server.ts are outside the sources at
  hand and are taken as given: \<open>replaceUrl\<close>, the template \<open>Endpoint.Proxy\<close>, and
  \<open>route\<close>, the effect of \<open>fastify.route\<close> on an instance \<open>'f\<close>, which may throw (and then
  leaves the instance as it was).
\<close>

record ('f, 'r) host =
  replaceUrl :: "string \<Rightarrow> (string \<times> string) list \<Rightarrow> string"
  Endpoint_Proxy :: string
  route :: "'f \<Rightarrow> 'r route_options \<Rightarrow> js_error + 'f"

text \<open>
  The module-level variables of the process: \<open>let fastify\<close> and \<open>let proxyNameList\<close> of
  proxy.ts (both \<open>undefined\<close>, here \<open>None\<close>, until the plugin has run), \<open>const startTime\<close>
  of health.ts, the two name lists behind \<open>getCustomizeNameList\<close> and
  \<open>getFunctionNameList\<close>, and the system clock in milliseconds.
\<close>

record 'f process =
  clock :: nat
  startTime :: string
  fastify :: "'f option"
  proxyNameList :: "string list option"
  customizeNameList :: "string list"
  functionNameList :: "string list"

text \<open>
  \<^verbatim>\<open>
  export const FireboomProxiesPlugin = async (_fastify) => { fastify = _fastify; proxyNameList = [] }
  export function getproxyNameList() { return proxyNameList }
  \<close>
  The plugin is the initialiser of the registry. (server.ts imports it under the spelling
  \<open>FireboomProxiesPlugun\<close>; what that does to the start-up is in \<open>startServer\<close>
  below.)
\<close>

definition FireboomProxiesPlugin :: "'f \<Rightarrow> 'f process \<Rightarrow> 'f process" where
  "FireboomProxiesPlugin f p = p\<lparr>fastify := Some f, proxyNameList := Some []\<rparr>"

definition getproxyNameList :: "'f process \<Rightarrow> string list option" where
  "getproxyNameList p = proxyNameList p"

text \<open>
  \<^verbatim>\<open>
  export async function registerProxyHandler(path, config) {
    const routeUrl = replaceUrl(Endpoint.Proxy, { path })
    fastify.route({ method: ['GET', 'POST'], url: routeUrl,
                    config: { kind: 'proxy', proxyPath: path }, async handler(req, reply) {...} })
    proxyNameList.push(path)
  }
  \<close>
  The call returns how it ended (the promise fulfilled, or rejected with what was thrown)
  and the variables afterwards. \<open>fastify.route\<close> on \<open>undefined\<close> and \<open>push\<close> on
  \<open>undefined\<close> throw a \<open>TypeError\<close>.
\<close>

definition registerProxyHandler ::
  "('f, 'r) host \<Rightarrow> string \<Rightarrow> 'r proxy_config \<Rightarrow> 'f process \<Rightarrow> (js_error + unit) \<times> 'f process"
where
  "registerProxyHandler H path config p =
     (let routeUrl = replaceUrl H (Endpoint_Proxy H) [(''path'', path)] in
      case fastify p of
        None \<Rightarrow> (Inl TypeError, p)
      | Some f \<Rightarrow>
         (case route H f \<lparr>ro_method = [''GET'', ''POST''], ro_url = routeUrl,
                           ro_kind = ''proxy'', ro_proxyPath = path,
                           ro_handler = proxy_route_handler config\<rparr> of
            Inl e \<Rightarrow> (Inl e, p)
          | Inr f' \<Rightarrow>
             (case proxyNameList p of
                None \<Rightarrow> (Inl TypeError, p\<lparr>fastify := Some f'\<rparr>)
              | Some ns \<Rightarrow> (Inr (), p\<lparr>fastify := Some f', proxyNameList := Some (ns @ [path])\<rparr>))))"

text \<open>A sequence of register calls: the outcome of each call, and the variables at the end.\<close>

fun register_calls ::
  "('f, 'r) host \<Rightarrow> (string \<times> 'r proxy_config) list \<Rightarrow> 'f process \<Rightarrow>
   (js_error + unit) list \<times> 'f process"
where
  "register_calls H [] p = ([], p)"
| "register_calls H ((path, config) # cs) p =
     (let (out, p') = registerProxyHandler H path config p;
          (outs, p'') = register_calls H cs p'
      in (out # outs, p''))"

text \<open>The names of the calls that succeeded, in call order.\<close>

definition succeeded :: "(string \<times> 'c) list \<Rightarrow> (js_error + unit) list \<Rightarrow> string list" where
  "succeeded cs outs = map (fst \<circ> fst) (filter (\<lambda>(c, out). out = Inr ()) (zip cs outs))"

section \<open>The health report (health.ts)\<close>

text \<open>
  \<^verbatim>\<open>const startTime = new Date().toISOString()\<close>
  runs once, when the module is loaded. \<open>toISOString\<close> is the library's rendering of a
  time stamp and is taken as given.
\<close>

definition load_health :: "(nat \<Rightarrow> string) \<Rightarrow> 'f process \<Rightarrow> 'f process" where
  "load_health toISOString p = p\<lparr>startTime := toISOString (clock p)\<rparr>"

text \<open>
  Modelled from the spec: customize.ts and function.ts, which export
  \<open>getCustomizeNameList\<close> and \<open>getFunctionNameList\<close>, are missing from the sources.
  Following the spec's \<open>listNames\<close> (the names in registration order) and \<open>register\<close>
  (appends the name to the category's list), each getter returns its category's list and
  each registration appends to it.
\<close>

definition getCustomizeNameList :: "'f process \<Rightarrow> string list" where
  "getCustomizeNameList p = customizeNameList p"

definition getFunctionNameList :: "'f process \<Rightarrow> string list" where
  "getFunctionNameList p = functionNameList p"

definition registerCustomize :: "string \<Rightarrow> 'f process \<Rightarrow> 'f process" where
  "registerCustomize name p = p\<lparr>customizeNameList := customizeNameList p @ [name]\<rparr>"

definition registerFunction :: "string \<Rightarrow> 'f process \<Rightarrow> 'f process" where
  "registerFunction name p = p\<lparr>functionNameList := functionNameList p @ [name]\<rparr>"

definition names_val :: "string list \<Rightarrow> jsval" where
  "names_val ns = JArr (map JStr ns)"

definition opt_names_val :: "string list option \<Rightarrow> jsval" where
  "opt_names_val v = (case v of None \<Rightarrow> JUndefined | Some ns \<Rightarrow> names_val ns)"

text \<open>
  The handler of \<open>GET /health\<close>:
  \<^verbatim>\<open>
  return { status: 'ok',
           report: { customizes: getCustomizeNameList(), functions: getFunctionNameList(),
                     proxys: getproxyNameList(), time: startTime } }
  \<close>
\<close>

definition health :: "'f process \<Rightarrow> jsval" where
  "health p =
     JObj [(''status'', JStr ''ok''),
           (''report'',
            JObj [(''customizes'', names_val (getCustomizeNameList p)),
                  (''functions'', names_val (getFunctionNameList p)),
                  (''proxys'', opt_names_val (getproxyNameList p)),
                  (''time'', JStr (startTime p))])]"

text \<open>Reading a reply: the field \<open>k\<close> of its \<open>report\<close>, and the strings of an array.\<close>

definition report_field :: "jsval \<Rightarrow> string \<Rightarrow> js_error + jsval" where
  "report_field reply k =
     (case get_prop reply ''report'' of Inl e \<Rightarrow> Inl e | Inr r \<Rightarrow> get_prop r k)"

fun own_keys :: "js_error + jsval \<Rightarrow> string list" where
  "own_keys (Inr (JObj kvs)) = map fst kvs"
| "own_keys v = []"

fun array_elems :: "js_error + jsval \<Rightarrow> jsval list" where
  "array_elems (Inr (JArr xs)) = xs"
| "array_elems v = []"

text \<open>
  The process from its start: every variable as the module declarations leave it, with
  health.ts loaded at time \<open>t\<close>.
\<close>

definition boot :: "(nat \<Rightarrow> string) \<Rightarrow> nat \<Rightarrow> 'f process" where
  "boot toISOString t =
     load_health toISOString
       \<lparr>clock = t, startTime = [], fastify = None, proxyNameList = None,
        customizeNameList = [], functionNameList = []\<rparr>"

text \<open>
  What happens in the life of the process, as far as these variables go: time passes, the
  proxy plugin runs, extensions register, and the health endpoint is called.
\<close>

datatype ('f, 'r) action =
    Tick nat
  | RunProxiesPlugin 'f
  | RegisterProxy string "'r proxy_config"
  | RegisterCustomize string
  | RegisterFunction string
  | GetHealth

fun step :: "('f, 'r) host \<Rightarrow> ('f, 'r) action \<Rightarrow> 'f process \<Rightarrow> jsval list \<times> 'f process" where
  "step H (Tick d) p = ([], p\<lparr>clock := clock p + d\<rparr>)"
| "step H (RunProxiesPlugin f) p = ([], FireboomProxiesPlugin f p)"
| "step H (RegisterProxy path config) p = ([], snd (registerProxyHandler H path config p))"
| "step H (RegisterCustomize name) p = ([], registerCustomize name p)"
| "step H (RegisterFunction name) p = ([], registerFunction name p)"
| "step H GetHealth p = ([health p], p)"

text \<open>The replies of the health endpoint during a run, in order, and the variables at its end.\<close>

fun run :: "('f, 'r) host \<Rightarrow> ('f, 'r) action list \<Rightarrow> 'f process \<Rightarrow> jsval list \<times> 'f process" where
  "run H [] p = ([], p)"
| "run H (a # as) p =
     (let (rs, p') = step H a p; (rs', p'') = run H as p' in (rs @ rs', p''))"

section \<open>Dispatch of a request to a registered route\<close>

text \<open>
  The routes of the categories live in the plugin that adds the \<open>preHandler\<close> hook, so
  the transport runs the hook first and the route's handler after it; when the hook throws,
  the transport answers with the error and the handler is not called.
\<close>

definition dispatch ::
  "string \<Rightarrow> (request \<Rightarrow> 'r \<times> event list) \<Rightarrow> request \<Rightarrow> js_error + ('r \<times> event list)"
where
  "dispatch apiBaseURL handler req =
     (case preHandler apiBaseURL req of
        Inl e \<Rightarrow> Inl e
      | Inr (req', evs) \<Rightarrow> (let (r, evs') = handler req' in Inr (r, evs @ evs')))"

fun is_SetCtx :: "event \<Rightarrow> bool" where
  "is_SetCtx (SetCtx c) = True"
| "is_SetCtx e = False"

section \<open>Startup: the extension loader of \<open>startServer\<close>\<close>

text \<open>
  \<^verbatim>\<open>
  const entries = await glob(resolve(__dirname,
    `./{customize,global,operation,storage,proxy}/**/*.${process.env.NODE_ENV === 'production' ? 'js' : 'ts'}`))
  for (const entry of entries) { require(entry) }
  \<close>
\<close>

definition entries_pattern :: "string option \<Rightarrow> string" where
  "entries_pattern node_env =
     ''./{customize,global,operation,storage,proxy}/**/*.'' @
     (if node_env = Some ''production'' then ''js'' else ''ts'')"

text \<open>
  The capabilities the start-up calls: \<open>resolve\<close> and \<open>glob\<close> of the libraries (the
  latter reads the file system), \<open>require\<close>, which runs a file's top-level code on the
  state \<open>'w\<close> of the process and may throw, and \<open>register\<close>, the effect of
  \<open>fastify.register\<close> for a plugin function, named by the export that holds it.
\<close>

record 'w loader =
  dirname :: string
  NODE_ENV :: "string option"
  resolve :: "string \<Rightarrow> string \<Rightarrow> string"
  glob :: "string \<Rightarrow> string list"
  require :: "string \<Rightarrow> 'w \<Rightarrow> js_error + 'w"
  register :: "string \<Rightarrow> 'w \<Rightarrow> js_error + 'w"

text \<open>The \<open>for\<close> loop: an exception of \<open>require\<close> leaves the loop and the function.\<close>

fun require_all :: "(string \<Rightarrow> 'w \<Rightarrow> js_error + 'w) \<Rightarrow> string list \<Rightarrow> 'w \<Rightarrow> js_error + 'w" where
  "require_all req [] w = Inr w"
| "require_all req (entry # entries) w =
     (case req entry w of Inl e \<Rightarrow> Inl e | Inr w' \<Rightarrow> require_all req entries w')"

definition scan :: "'w loader \<Rightarrow> string list" where
  "scan L = glob L (resolve L (dirname L) (entries_pattern (NODE_ENV L)))"

definition load_extensions :: "'w loader \<Rightarrow> 'w \<Rightarrow> js_error + 'w" where
  "load_extensions L w = require_all (require L) (scan L) w"

text \<open>
  What the module \<open>./proxy\<close> exports at run time (the interface \<open>ProxyConfig\<close> is a type
  only):
  \<^verbatim>\<open>
  export async function registerProxyHandler(path, config) {...}
  export const FireboomProxiesPlugin = async (_fastify) => {...}
  export function getproxyNameList() {...}
  \<close>
\<close>

definition proxy_exports :: "string list" where
  "proxy_exports = [''registerProxyHandler'', ''FireboomProxiesPlugin'', ''getproxyNameList'']"

text \<open>
  \<open>fastify.register(x)\<close> for a name \<open>x\<close> imported from a module: the import of a name
  that the module does not export is \<open>undefined\<close>, and the transport refuses to register
  what is not a function.
\<close>

definition register_import :: "'w loader \<Rightarrow> string list \<Rightarrow> string \<Rightarrow> 'w \<Rightarrow> js_error + 'w" where
  "register_import L exports name w =
     (if name \<in> set exports then register L name w
      else Inl (Thrown ''plugin must be a function or a promise''))"

text \<open>
  \<open>startServer\<close> from the registration of the category plugins on:
  \<^verbatim>\<open>
  import { FireboomCustomizesPlugun } from './customize'
  import { FireboomProxiesPlugun } from './proxy'
  ...
  await fastify.register(async fastify => {
    fastify.addHook('preHandler', ...)
    await fastify.register(FireboomHooksPlugun)
    await fastify.register(FireboomCustomizesPlugun)
    await fastify.register(FireboomProxiesPlugun)
    await fastify.register(FireboomFunctionsPlugun)
    const entries = await glob(...)
    for (const entry of entries) { require(entry) }
  })
  closeWithGrace(...)
  fastify.listen(...)
  \<close>
  Every step is awaited, so what one throws rejects \<open>startServer\<close> before the steps after
  it. The modules \<open>./hooks\<close>, \<open>./customize\<close> and \<open>./function\<close> are outside the
  sources at hand; their plugins are taken to be exported under the names imported.
\<close>

record 'w started =
  world :: 'w
  listen_called :: bool

definition startServer :: "'w loader \<Rightarrow> 'w \<Rightarrow> js_error + 'w started" where
  "startServer L w =
     (case register L ''FireboomHooksPlugun'' w of
        Inl e \<Rightarrow> Inl e
      | Inr w1 \<Rightarrow>
     (case register L ''FireboomCustomizesPlugun'' w1 of
        Inl e \<Rightarrow> Inl e
      | Inr w2 \<Rightarrow>
     (case register_import L proxy_exports ''FireboomProxiesPlugun'' w2 of
        Inl e \<Rightarrow> Inl e
      | Inr w3 \<Rightarrow>
     (case register L ''FireboomFunctionsPlugun'' w3 of
        Inl e \<Rightarrow> Inl e
      | Inr w4 \<Rightarrow>
     (case load_extensions L w4 of
        Inl e \<Rightarrow> Inl e
      | Inr w5 \<Rightarrow> Inr \<lparr>world = w5, listen_called = True\<rparr>)))))"

section \<open>Shutdown: the callback given to \<open>closeWithGrace\<close>\<close>

text \<open>
  \<^verbatim>\<open>
  closeWithGrace({ delay: 500 }, async ({ err }) => {
    if (err) { logger.error('Error when graceful shutdown Fireboom hook server', err) }
    await fastify.close()
    logger.info('Fireboom hook server is closed')
  })
  \<close>
  \<open>fastify.close()\<close> stops the transport from accepting and settles once the requests in
  flight are done: after some milliseconds it resolves or rejects, or it stays pending.
\<close>

datatype close_outcome = Resolves nat | Rejects nat js_error | Pending

datatype shutdown_event = LogError js_error | FastifyClose | LogClosed

text \<open>
  The callback: what it does, each with the milliseconds since its start, and when and how
  its promise settles (\<open>True\<close> for fulfilled), if it does.
\<close>

definition shutdown_callback ::
  "js_error option \<Rightarrow> close_outcome \<Rightarrow> (nat \<times> shutdown_event) list \<times> (nat \<times> bool) option"
where
  "shutdown_callback err outcome =
     (let started = (case err of Some e \<Rightarrow> [(0, LogError e)] | None \<Rightarrow> []) @ [(0, FastifyClose)]
      in case outcome of
           Resolves d \<Rightarrow> (started @ [(d, LogClosed)], Some (d, True))
         | Rejects d e \<Rightarrow> (started, Some (d, False))
         | Pending \<Rightarrow> (started, None))"






section \<open>A concrete host\<close>

text \<open>
  An instance of the capabilities taken as given, on which the model can be run: the
  transport is the list of the urls it has mounted and refuses a url it already has, the
  url template is filled by appending the value, a time stamp is rendered as its number of
  milliseconds, and an extension handler does nothing.
\<close>

definition example_host :: "(string list, unit) host" where
  "example_host =
     \<lparr>replaceUrl = (\<lambda>template params. template @ concat (map snd params)),
      Endpoint_Proxy = ''/proxy/'',
      route = (\<lambda>f opts. if ro_url opts \<in> set f then Inl (Thrown ''duplicated route'')
                         else Inr (f @ [ro_url opts]))\<rparr>"

definition example_config :: "unit proxy_config" where
  "example_config = (\<lambda>request c. ())"

definition example_process :: "string list process" where
  "example_process = FireboomProxiesPlugin [] (boot string_of_nat 0)"

text \<open>
  A request with the given body, and an extension handler that answers with the context it
  was handed.
\<close>

definition example_request :: "jsval \<Rightarrow> request" where
  "example_request b =
     \<lparr>body = b, req_headers = no_headers, req_method = ''POST'', query = JObj [], ctx = None\<rparr>"

definition echo_ctx :: "(request_ctx option) proxy_config" where
  "echo_ctx = (\<lambda>request c. c)"

text \<open>A body whose envelope holds a caller request and no \<open>user\<close>, and the context it gets.\<close>

definition example_body :: jsval where
  "example_body = JObj [(''__wg'', JObj [(''clientRequest'', JObj [(''method'', JStr ''GET'')])])]"

definition example_ctx :: request_ctx where
  "example_ctx =
     \<lparr>user = JUndefined,
      ctx_clientRequest = JObj [(''method'', JStr ''GET'')],
      operationsClient = \<lparr>baseURL = ''http://localhost:9991'', requestTimeoutMs = 3000,
                           clientRequest = JObj [(''method'', JStr ''GET'')]\<rparr>\<rparr>"

text \<open>
  A file system with a packaged and a development set of extensions, whose state of the
  process is the list of the files that have run; the packaged \<open>bad.js\<close> throws.
\<close>

definition example_loader :: "string option \<Rightarrow> string list loader" where
  "example_loader env =
     \<lparr>dirname = ''/app'',
      NODE_ENV = env,
      resolve = (\<lambda>dir p. dir @ drop 1 p),
      glob = (\<lambda>pattern.
        if pattern = ''/app/{customize,global,operation,storage,proxy}/**/*.js''
        then [''/app/customize/a.js'', ''/app/proxy/bad.js'', ''/app/proxy/c.js'']
        else if pattern = ''/app/{customize,global,operation,storage,proxy}/**/*.ts''
        then [''/app/customize/a.ts'', ''/app/proxy/c.ts'']
        else []),
      require = (\<lambda>entry w. if entry = ''/app/proxy/bad.js'' then Inl (Thrown ''bad'')
                            else Inr (w @ [entry])),
      register = (\<lambda>name. Inr)\<rparr>"

chapter \<open>Properties\<close>

section \<open>Correlation ids\<close>

lemma digit_char_inj: "a < 10 \<Longrightarrow> b < 10 \<Longrightarrow> digit_char a = digit_char b \<Longrightarrow> a = b"
proof -
  assume a: "a < 10" and b: "b < 10" and e: "digit_char a = digit_char b"
  have d: "distinct ''0123456789''" by simp
  have "a < length ''0123456789''" "b < length ''0123456789''" using a b by simp_all
  with d e show ?thesis unfolding digit_char_def by (simp only: nth_eq_iff_index_eq)
qed

lemma string_of_nat_length: "10 \<le> n \<Longrightarrow> 2 \<le> length (string_of_nat n)"
  by (subst string_of_nat.simps, subst string_of_nat.simps) simp

lemma string_of_nat_small: "n < 10 \<Longrightarrow> length (string_of_nat n) = 1"
  by (subst string_of_nat.simps) simp

lemma string_of_nat_inj: "string_of_nat n = string_of_nat m \<Longrightarrow> n = m"
proof (induction n arbitrary: m rule: string_of_nat.induct)
  case (1 n)
  show ?case
  proof (cases "n < 10")
    case True
    have m: "m < 10"
    proof (rule ccontr)
      assume "\<not> m < 10"
      then have "2 \<le> length (string_of_nat m)" by (simp add: string_of_nat_length)
      with string_of_nat_small [OF True] "1.prems" show False by simp
    qed
    from "1.prems" True m have "digit_char n = digit_char m"
      by (simp add: string_of_nat.simps [of n] string_of_nat.simps [of m])
    with True m show ?thesis by (rule digit_char_inj)
  next
    case False
    have m: "\<not> m < 10"
    proof
      assume "m < 10"
      then have "length (string_of_nat m) = 1" by (rule string_of_nat_small)
      moreover from False have "2 \<le> length (string_of_nat n)" by (simp add: string_of_nat_length)
      ultimately show False using "1.prems" by simp
    qed
    from "1.prems" False m
    have e: "string_of_nat (n div 10) @ [digit_char (n mod 10)] =
             string_of_nat (m div 10) @ [digit_char (m mod 10)]"
      by (simp add: string_of_nat.simps [of n] string_of_nat.simps [of m])
    then have "string_of_nat (n div 10) = string_of_nat (m div 10)" by simp
    with "1.IH" False have q: "n div 10 = m div 10" by blast
    from e have "digit_char (n mod 10) = digit_char (m mod 10)" by simp
    then have r: "n mod 10 = m mod 10" by (intro digit_char_inj) simp_all
    from q r show ?thesis by (metis div_mult_mod_eq)
  qed
qed

lemma genReqId_truthy:
  "hdrs ''x-request-id'' = Some v \<Longrightarrow> truthy_header (Some v) \<Longrightarrow>
   genReqId hdrs c = (header_toString v, c)"
  by (simp add: genReqId_def)

lemma genReqId_falsy:
  "\<not> truthy_header (hdrs ''x-request-id'') \<Longrightarrow>
   genReqId hdrs c = (string_of_nat (js_incr c), js_incr c)"
  by (simp add: genReqId_def)

lemma genReqId_counter:
  "snd (genReqId hdrs c) = (if truthy_header (hdrs ''x-request-id'') then c else js_incr c)"
  by (cases "hdrs ''x-request-id''") (simp_all add: genReqId_def)

lemma assign_ids_length: "length (fst (assign_ids hs c)) = length hs"
  by (induction hs arbitrary: c) (simp_all add: split_beta)

lemma assign_ids_nth_truthy:
  "k < length hs \<Longrightarrow> (hs ! k) ''x-request-id'' = Some v \<Longrightarrow> truthy_header (Some v) \<Longrightarrow>
   fst (assign_ids hs c) ! k = header_toString v"
proof (induction hs arbitrary: c k)
  case Nil
  then show ?case by simp
next
  case (Cons h hs)
  show ?case
  proof (cases k)
    case 0
    with Cons.prems show ?thesis by (simp add: split_beta genReqId_truthy)
  next
    case (Suc j)
    with Cons.prems have "fst (assign_ids hs (snd (genReqId h c))) ! j = header_toString v"
      by (intro Cons.IH) simp_all
    with Suc show ?thesis by (simp add: split_beta)
  qed
qed

lemma assign_ids_nth_falsy:
  "k < length hs \<Longrightarrow> \<not> truthy_header ((hs ! k) ''x-request-id'') \<Longrightarrow> c \<le> 2 ^ 53 \<Longrightarrow>
   fst (assign_ids hs c) ! k = string_of_nat (min (c + Suc (generated_before hs k)) (2 ^ 53))"
proof (induction hs arbitrary: c k)
  case Nil
  then show ?case by simp
next
  case (Cons h hs)
  show ?case
  proof (cases k)
    case 0
    with Cons.prems show ?thesis
      by (simp add: split_beta genReqId_falsy generated_before_def js_incr_def)
  next
    case (Suc j)
    have c': "snd (genReqId h c) \<le> 2 ^ 53"
      using Cons.prems by (simp add: genReqId_counter js_incr_def)
    from Suc Cons.prems have "j < length hs" "\<not> truthy_header ((hs ! j) ''x-request-id'')"
      by simp_all
    from Cons.IH [OF this c'] Suc Cons.prems show ?thesis
      by (cases "truthy_header (h ''x-request-id'')")
         (simp_all add: split_beta genReqId_counter generated_before_def js_incr_def min_def)
  qed
qed

lemma generated_before_split:
  assumes "j < k" and "j < length hs"
  shows "generated_before hs k =
         generated_before hs j + (if truthy_header ((hs ! j) ''x-request-id'') then 0 else 1) +
         length (filter (\<lambda>h. \<not> truthy_header (h ''x-request-id'')) (drop (Suc j) (take k hs)))"
proof -
  have "j < length (take k hs)" using assms by simp
  then have "take k hs = take j (take k hs) @ (take k hs) ! j # drop (Suc j) (take k hs)"
    by (rule id_take_nth_drop)
  moreover have "take j (take k hs) = take j hs" using assms by (simp add: min_def)
  moreover have "(take k hs) ! j = hs ! j" using assms by simp
  ultimately have "take k hs = take j hs @ hs ! j # drop (Suc j) (take k hs)" by simp
  then have "filter (\<lambda>h. \<not> truthy_header (h ''x-request-id'')) (take k hs) =
      filter (\<lambda>h. \<not> truthy_header (h ''x-request-id'')) (take j hs @ hs ! j # drop (Suc j) (take k hs))"
    by simp
  then show ?thesis by (simp add: generated_before_def)
qed

lemma generated_before_mono:
  "j < k \<Longrightarrow> k < length hs \<Longrightarrow> \<not> truthy_header ((hs ! j) ''x-request-id'') \<Longrightarrow>
   generated_before hs j < generated_before hs k"
  using generated_before_split [of j k hs] by simp

lemma generated_before_le:
  "k < length hs \<Longrightarrow> \<not> truthy_header ((hs ! k) ''x-request-id'') \<Longrightarrow>
   Suc (generated_before hs k) \<le> generated_before hs (length hs)"
  using generated_before_split [of k "length hs" hs] by simp

text \<open>
  C1 (as amended). In a process that has to generate at most \<open>2^53\<close> ids, a request with a
  non-empty \<open>x-request-id\<close> string gets that string verbatim; a request without the header
  (or with an empty one) gets the decimal string of the count of generated ids so far,
  starting at 1; and two requests with generated ids never share one, the later id being
  the string of the larger number.
\<close>

theorem genReqId_correlation_id:
  assumes "generated_before hs (length hs) \<le> 2 ^ 53" and "k < length hs"
  shows "(\<forall>s. (hs ! k) ''x-request-id'' = Some (HString s) \<and> s \<noteq> [] \<longrightarrow>
            fst (assign_ids hs 0) ! k = s) \<and>
         (\<not> truthy_header ((hs ! k) ''x-request-id'') \<longrightarrow>
            fst (assign_ids hs 0) ! k = string_of_nat (Suc (generated_before hs k)) \<and>
            (\<forall>j < k. \<not> truthy_header ((hs ! j) ''x-request-id'') \<longrightarrow>
               generated_before hs j < generated_before hs k \<and>
               fst (assign_ids hs 0) ! j = string_of_nat (Suc (generated_before hs j)) \<and>
               fst (assign_ids hs 0) ! j \<noteq> fst (assign_ids hs 0) ! k))"
proof (intro conjI allI impI)
  fix s assume "(hs ! k) ''x-request-id'' = Some (HString s) \<and> s \<noteq> []"
  then show "fst (assign_ids hs 0) ! k = s"
    using assign_ids_nth_truthy [OF assms(2), of "HString s" 0] by simp
next
  assume f: "\<not> truthy_header ((hs ! k) ''x-request-id'')"
  have b: "Suc (generated_before hs k) \<le> 2 ^ 53"
    using generated_before_le [OF assms(2) f] assms(1) by simp
  show k: "fst (assign_ids hs 0) ! k = string_of_nat (Suc (generated_before hs k))"
    using assign_ids_nth_falsy [OF assms(2) f, of 0] b by (simp add: min_def)
  fix j assume jk: "j < k" and fj: "\<not> truthy_header ((hs ! j) ''x-request-id'')"
  show lt: "generated_before hs j < generated_before hs k"
    using jk assms(2) fj by (rule generated_before_mono)
  have "j < length hs" using jk assms(2) by simp
  from assign_ids_nth_falsy [OF this fj, of 0] lt b
  show j: "fst (assign_ids hs 0) ! j = string_of_nat (Suc (generated_before hs j))"
    by (simp add: min_def)
  show "fst (assign_ids hs 0) ! j \<noteq> fst (assign_ids hs 0) ! k"
  proof
    assume "fst (assign_ids hs 0) ! j = fst (assign_ids hs 0) ! k"
    with j k have "string_of_nat (Suc (generated_before hs j)) =
        string_of_nat (Suc (generated_before hs k))"
      by simp
    then have "Suc (generated_before hs j) = Suc (generated_before hs k)"
      by (rule string_of_nat_inj)
    with lt show False by simp
  qed
qed

theorem genReqId_correlation_id_witness:
  "fst (assign_ids [no_headers, with_request_id (HString ''1''), no_headers] 0) ! 0 = ''1'' \<and>
   fst (assign_ids [no_headers, with_request_id (HString ''1''), no_headers] 0) ! 1 = ''1'' \<and>
   fst (assign_ids [no_headers, with_request_id (HString ''1''), no_headers] 0) ! 2 = ''2'' \<and>
   fst (assign_ids [no_headers, with_request_id (HString ''1''), no_headers] 0) ! 0 \<noteq>
   fst (assign_ids [no_headers, with_request_id (HString ''1''), no_headers] 0) ! 2"
proof -
  let ?hs = "[no_headers, with_request_id (HString ''1''), no_headers]"
  let ?ids = "fst (assign_ids ?hs 0)"
  have g: "generated_before ?hs (length ?hs) \<le> 2 ^ 53"
    by (simp add: generated_before_def no_headers_def with_request_id_def)
  have g0: "generated_before ?hs 0 = 0" and g2: "generated_before ?hs 2 = 1"
    by (simp_all add: generated_before_def no_headers_def with_request_id_def numeral_2_eq_2)
  have f0: "\<not> truthy_header ((?hs ! 0) ''x-request-id'')"
    and f2: "\<not> truthy_header ((?hs ! 2) ''x-request-id'')"
    and h1: "(?hs ! 1) ''x-request-id'' = Some (HString ''1'') \<and> ''1'' \<noteq> []"
    by (simp_all add: no_headers_def with_request_id_def)
  have k1: "1 < length ?hs" and k2: "2 < length ?hs" and z: "0 < (2::nat)" by simp_all
  from genReqId_correlation_id [OF g k1] h1 have i1: "?ids ! 1 = ''1''" by blast
  from genReqId_correlation_id [OF g k2] f2 f0 z
  have "?ids ! 2 = string_of_nat (Suc (generated_before ?hs 2))"
    and "?ids ! 0 = string_of_nat (Suc (generated_before ?hs 0))"
    and ne: "?ids ! 0 \<noteq> ?ids ! 2"
    by blast+
  then have i2: "?ids ! 2 = ''2''" and i0: "?ids ! 0 = ''1''"
    by (simp_all only: g0 g2) (simp_all add: string_of_nat.simps digit_char_def)
  from i0 i1 i2 ne show ?thesis by blast
qed

lemma assign_ids_replicate:
  "k < n \<Longrightarrow> fst (assign_ids (replicate n no_headers) 0) ! k = string_of_nat (min (Suc k) (2 ^ 53))"
proof -
  assume k: "k < n"
  have "generated_before (replicate n no_headers) k = k"
    using k by (simp add: generated_before_def no_headers_def min_def)
  with assign_ids_nth_falsy [of k "replicate n no_headers" 0] k show ?thesis
    by (simp add: no_headers_def)
qed

text \<open>
  C1 as stated fails twice: a request whose \<open>x-request-id\<close> header is the empty string
  carries the header and still gets a generated id, and the request number \<open>2^53 + 1\<close>
  without a header gets the id of the request before it.
\<close>

theorem genReqId_counterexample:
  "genReqId (with_request_id (HString [])) 0 = (''1'', 1) \<and>
   fst (assign_ids (replicate (2 ^ 53 + 1) no_headers) 0) ! (2 ^ 53 - 1) =
   fst (assign_ids (replicate (2 ^ 53 + 1) no_headers) 0) ! (2 ^ 53)"
proof
  show "genReqId (with_request_id (HString [])) 0 = (''1'', 1)"
    by (simp add: genReqId_def with_request_id_def js_incr_def string_of_nat.simps digit_char_def)
  have a: "fst (assign_ids (replicate (2 ^ 53 + 1) no_headers) 0) ! (2 ^ 53 - 1) =
        string_of_nat (min (Suc (2 ^ 53 - 1)) (2 ^ 53))"
    by (rule assign_ids_replicate) simp
  have b: "fst (assign_ids (replicate (2 ^ 53 + 1) no_headers) 0) ! (2 ^ 53) =
        string_of_nat (min (Suc (2 ^ 53)) (2 ^ 53))"
    by (rule assign_ids_replicate) simp
  have c: "min (Suc (2 ^ 53 - 1)) (2 ^ 53) = min (Suc (2 ^ 53)) (2 ^ 53 :: nat)" by simp
  show "fst (assign_ids (replicate (2 ^ 53 + 1) no_headers) 0) ! (2 ^ 53 - 1) =
        fst (assign_ids (replicate (2 ^ 53 + 1) no_headers) 0) ! (2 ^ 53)"
    by (simp only: a b c)
qed

section \<open>The proxy registry\<close>

lemma registerProxyHandler_names:
  assumes "proxyNameList p = Some ns"
  shows "proxyNameList (snd (registerProxyHandler H path config p)) =
         Some (if fst (registerProxyHandler H path config p) = Inr () then ns @ [path] else ns)"
  using assms
  by (simp add: registerProxyHandler_def Let_def split: option.splits sum.splits)

lemma register_calls_length: "length (fst (register_calls H cs p)) = length cs"
proof (induction cs arbitrary: p)
  case Nil
  show ?case by simp
next
  case (Cons c cs)
  obtain path config where "c = (path, config)" by (cases c)
  with Cons show ?case by (simp add: split_beta)
qed

lemma succeeded_Cons:
  "succeeded (c # cs) (out # outs) =
   (if out = Inr () then fst c # succeeded cs outs else succeeded cs outs)"
  by (simp add: succeeded_def)

lemma register_calls_names:
  "proxyNameList p = Some ns \<Longrightarrow>
   proxyNameList (snd (register_calls H cs p)) =
   Some (ns @ succeeded cs (fst (register_calls H cs p)))"
proof (induction cs arbitrary: p ns)
  case Nil
  then show ?case by (simp add: succeeded_def)
next
  case (Cons c cs)
  obtain path config where c: "c = (path, config)" by (cases c)
  let ?r = "registerProxyHandler H path config p"
  from registerProxyHandler_names [OF Cons.prems, of H path config]
  have "proxyNameList (snd ?r) = Some (if fst ?r = Inr () then ns @ [path] else ns)" .
  from Cons.IH [OF this] show ?case
    by (simp add: c split_beta succeeded_Cons)
qed

lemma succeeded_length:
  "length outs = length cs \<Longrightarrow>
   length (succeeded cs outs) = length (filter (\<lambda>out. out = Inr ()) outs)"
proof (induction cs arbitrary: outs)
  case Nil
  then show ?case by (simp add: succeeded_def)
next
  case (Cons c cs)
  then obtain out outs' where "outs = out # outs'" by (cases outs) simp_all
  with Cons show ?case by (simp add: succeeded_Cons)
qed

text \<open>
  C2. After any sequence of \<open>registerProxyHandler\<close> calls into the registry that the
  plugin has set up, \<open>getproxyNameList\<close> returns exactly the names of the calls that
  succeeded, in call order, and as many names as there were successful calls.
\<close>

theorem getproxyNameList_registration_order:
  "getproxyNameList (snd (register_calls H cs (FireboomProxiesPlugin f p))) =
     Some (succeeded cs (fst (register_calls H cs (FireboomProxiesPlugin f p)))) \<and>
   length (succeeded cs (fst (register_calls H cs (FireboomProxiesPlugin f p)))) =
     length (filter (\<lambda>out. out = Inr ()) (fst (register_calls H cs (FireboomProxiesPlugin f p))))"
proof
  have "proxyNameList (FireboomProxiesPlugin f p) = Some []"
    by (simp add: FireboomProxiesPlugin_def)
  from register_calls_names [OF this, of H cs]
  show "getproxyNameList (snd (register_calls H cs (FireboomProxiesPlugin f p))) =
     Some (succeeded cs (fst (register_calls H cs (FireboomProxiesPlugin f p))))"
    by (simp add: getproxyNameList_def)
  show "length (succeeded cs (fst (register_calls H cs (FireboomProxiesPlugin f p)))) =
     length (filter (\<lambda>out. out = Inr ()) (fst (register_calls H cs (FireboomProxiesPlugin f p))))"
    by (rule succeeded_length) (rule register_calls_length)
qed

lemma example_register_calls:
  "fst (register_calls example_host
          [(''orders'', example_config), (''users'', example_config), (''orders'', example_config)]
          (FireboomProxiesPlugin [] (boot string_of_nat 0))) =
   [Inr (), Inr (), Inl (Thrown ''duplicated route'')]"
  by (simp add: registerProxyHandler_def example_host_def FireboomProxiesPlugin_def boot_def
      load_health_def)

theorem getproxyNameList_registration_order_witness:
  "getproxyNameList (snd (register_calls example_host
      [(''orders'', example_config), (''users'', example_config), (''orders'', example_config)]
      (FireboomProxiesPlugin [] (boot string_of_nat 0)))) = Some [''orders'', ''users'']"
  using getproxyNameList_registration_order [of example_host
      "[(''orders'', example_config), (''users'', example_config), (''orders'', example_config)]"
      "[]" "boot string_of_nat 0"]
  unfolding example_register_calls by (simp add: succeeded_def)

section \<open>The health report\<close>

lemma health_status: "get_prop (health p) ''status'' = Inr (JStr ''ok'')"
  by (simp add: health_def)

lemma health_report:
  "report_field (health p) ''customizes'' = Inr (names_val (getCustomizeNameList p))"
  "report_field (health p) ''functions'' = Inr (names_val (getFunctionNameList p))"
  "report_field (health p) ''proxys'' = Inr (opt_names_val (getproxyNameList p))"
  "report_field (health p) ''time'' = Inr (JStr (startTime p))"
  by (simp_all add: health_def report_field_def)

lemma health_report_keys:
  "own_keys (get_prop (health p) ''report'') = [''customizes'', ''functions'', ''proxys'', ''time'']"
  by (simp add: health_def)

lemma boot_lists:
  "getCustomizeNameList (FireboomProxiesPlugin f (boot toISO t)) = []"
  "getFunctionNameList (FireboomProxiesPlugin f (boot toISO t)) = []"
  "getproxyNameList (FireboomProxiesPlugin f (boot toISO t)) = Some []"
  "startTime (FireboomProxiesPlugin f (boot toISO t)) = toISO t"
  by (simp_all add: getCustomizeNameList_def getFunctionNameList_def getproxyNameList_def
      FireboomProxiesPlugin_def boot_def load_health_def)

text \<open>
  C3 (as amended). Every call of the health endpoint returns status \<open>ok\<close> and a report of
  exactly four fields: the name lists of the three registries \<open>customizes\<close>,
  \<open>functions\<close> and \<open>proxys\<close> as they are at the call, and the start time. Before any
  extension is loaded the three lists are empty and the status is \<open>ok\<close>.
\<close>

theorem health_snapshot:
  "get_prop (health p) ''status'' = Inr (JStr ''ok'') \<and>
   own_keys (get_prop (health p) ''report'') = [''customizes'', ''functions'', ''proxys'', ''time''] \<and>
   report_field (health p) ''customizes'' = Inr (names_val (getCustomizeNameList p)) \<and>
   report_field (health p) ''functions'' = Inr (names_val (getFunctionNameList p)) \<and>
   report_field (health p) ''proxys'' = Inr (opt_names_val (getproxyNameList p)) \<and>
   report_field (health p) ''time'' = Inr (JStr (startTime p)) \<and>
   health (FireboomProxiesPlugin f (boot toISO t)) =
     JObj [(''status'', JStr ''ok''),
           (''report'', JObj [(''customizes'', JArr []), (''functions'', JArr []),
                              (''proxys'', JArr []), (''time'', JStr (toISO t))])]"
proof -
  have "health (FireboomProxiesPlugin f (boot toISO t)) =
     JObj [(''status'', JStr ''ok''),
           (''report'', JObj [(''customizes'', JArr []), (''functions'', JArr []),
                              (''proxys'', JArr []), (''time'', JStr (toISO t))])]"
    unfolding health_def boot_lists by (simp add: names_val_def opt_names_val_def)
  then show ?thesis
    by (simp only: health_status health_report health_report_keys)
qed

lemma example_register_orders:
  "registerProxyHandler example_host ''orders'' example_config example_process =
   (Inr (), example_process\<lparr>fastify := Some [''/proxy/orders''],
                            proxyNameList := Some [''orders'']\<rparr>)"
  by (simp add: registerProxyHandler_def example_host_def example_process_def
      FireboomProxiesPlugin_def)

theorem health_snapshot_witness:
  "report_field (health (snd (registerProxyHandler example_host ''orders'' example_config example_process)))
     ''proxys'' = Inr (JArr [JStr ''orders'']) \<and>
   report_field (health example_process) ''proxys'' = Inr (JArr [])"
proof -
  let ?p = "snd (registerProxyHandler example_host ''orders'' example_config example_process)"
  have a: "getproxyNameList ?p = Some [''orders'']"
    by (simp add: example_register_orders getproxyNameList_def)
  have b: "getproxyNameList example_process = Some []"
    by (simp add: example_process_def boot_lists)
  from health_snapshot [of ?p "[]" string_of_nat 0]
  have "report_field (health ?p) ''proxys'' = Inr (opt_names_val (getproxyNameList ?p))"
    by blast
  moreover from health_snapshot [of example_process "[]" string_of_nat 0]
  have "report_field (health example_process) ''proxys'' =
      Inr (opt_names_val (getproxyNameList example_process))"
    by blast
  ultimately show ?thesis
    by (simp add: a b opt_names_val_def names_val_def)
qed

text \<open>
  C3 as stated fails: the report has no list for the hooks, here in the process before any
  extension is loaded.
\<close>

theorem health_snapshot_counterexample:
  "report_field (health example_process) ''hooks'' = Inr JUndefined \<and>
   get_prop (health example_process) ''hooks'' = Inr JUndefined \<and>
   own_keys (get_prop (health example_process) ''report'') =
     [''customizes'', ''functions'', ''proxys'', ''time'']"
  by (simp add: health_def report_field_def example_process_def boot_lists
      names_val_def opt_names_val_def)

lemma registerProxyHandler_succeeds:
  assumes "fastify p = Some f" and "proxyNameList p = Some ns"
    and "route H f \<lparr>ro_method = [''GET'', ''POST''],
                     ro_url = replaceUrl H (Endpoint_Proxy H) [(''path'', path)],
                     ro_kind = ''proxy'', ro_proxyPath = path,
                     ro_handler = proxy_route_handler config\<rparr> = Inr f'"
  shows "registerProxyHandler H path config p =
         (Inr (), p\<lparr>fastify := Some f', proxyNameList := Some (ns @ [path])\<rparr>)"
  using assms by (simp add: registerProxyHandler_def)

text \<open>
  C4. When a name is registered in the proxy category (the plugin has set the registry up
  and the transport accepts the route), the registration succeeds and the health report
  that follows has the name in its \<open>proxys\<close> list, at the end of the names registered
  before; its \<open>customizes\<close> and \<open>functions\<close> lists are what they were before, so the
  name is in neither unless it was registered there as well.
\<close>

theorem health_after_proxy_registration:
  assumes "fastify p = Some f" and "proxyNameList p = Some ns"
    and "route H f \<lparr>ro_method = [''GET'', ''POST''],
                     ro_url = replaceUrl H (Endpoint_Proxy H) [(''path'', path)],
                     ro_kind = ''proxy'', ro_proxyPath = path,
                     ro_handler = proxy_route_handler config\<rparr> = Inr f'"
  shows "fst (registerProxyHandler H path config p) = Inr () \<and>
         report_field (health (snd (registerProxyHandler H path config p))) ''proxys'' =
           Inr (JArr (map JStr (ns @ [path]))) \<and>
         JStr path \<in> set (array_elems
           (report_field (health (snd (registerProxyHandler H path config p))) ''proxys'')) \<and>
         report_field (health (snd (registerProxyHandler H path config p))) ''customizes'' =
           report_field (health p) ''customizes'' \<and>
         report_field (health (snd (registerProxyHandler H path config p))) ''functions'' =
           report_field (health p) ''functions'' \<and>
         (path \<notin> set (getCustomizeNameList p) \<longrightarrow>
            JStr path \<notin> set (array_elems
              (report_field (health (snd (registerProxyHandler H path config p))) ''customizes''))) \<and>
         (path \<notin> set (getFunctionNameList p) \<longrightarrow>
            JStr path \<notin> set (array_elems
              (report_field (health (snd (registerProxyHandler H path config p))) ''functions'')))"
proof -
  let ?p' = "p\<lparr>fastify := Some f', proxyNameList := Some (ns @ [path])\<rparr>"
  have r: "registerProxyHandler H path config p = (Inr (), ?p')"
    using assms by (rule registerProxyHandler_succeeds)
  have "report_field (health ?p') ''proxys'' = Inr (JArr (map JStr (ns @ [path])))"
    by (simp add: health_report getproxyNameList_def opt_names_val_def names_val_def)
  moreover have "JStr path \<in> set (array_elems (report_field (health ?p') ''proxys''))"
    by (simp add: health_report getproxyNameList_def opt_names_val_def names_val_def)
  moreover have "report_field (health ?p') ''customizes'' = report_field (health p) ''customizes''"
    by (simp add: health_report getCustomizeNameList_def)
  moreover have "report_field (health ?p') ''functions'' = report_field (health p) ''functions''"
    by (simp add: health_report getFunctionNameList_def)
  moreover have "path \<notin> set (getCustomizeNameList p) \<longrightarrow>
      JStr path \<notin> set (array_elems (report_field (health ?p') ''customizes''))"
    by (auto simp: health_report getCustomizeNameList_def names_val_def)
  moreover have "path \<notin> set (getFunctionNameList p) \<longrightarrow>
      JStr path \<notin> set (array_elems (report_field (health ?p') ''functions''))"
    by (auto simp: health_report getFunctionNameList_def names_val_def)
  ultimately show ?thesis unfolding r by simp
qed

theorem health_after_proxy_registration_witness:
  "fst (registerProxyHandler example_host ''orders'' example_config example_process) = Inr () \<and>
   report_field
     (health (snd (registerProxyHandler example_host ''orders'' example_config example_process)))
     ''proxys'' = Inr (JArr [JStr ''orders'']) \<and>
   JStr ''orders'' \<notin> set (array_elems (report_field
     (health (snd (registerProxyHandler example_host ''orders'' example_config example_process)))
     ''customizes'')) \<and>
   JStr ''orders'' \<notin> set (array_elems (report_field
     (health (snd (registerProxyHandler example_host ''orders'' example_config example_process)))
     ''functions''))"
proof -
  have f: "fastify example_process = Some []" and n: "proxyNameList example_process = Some []"
    by (simp_all add: example_process_def FireboomProxiesPlugin_def)
  have r: "route example_host []
      \<lparr>ro_method = [''GET'', ''POST''],
       ro_url = replaceUrl example_host (Endpoint_Proxy example_host) [(''path'', ''orders'')],
       ro_kind = ''proxy'', ro_proxyPath = ''orders'',
       ro_handler = proxy_route_handler example_config\<rparr> = Inr [''/proxy/orders'']"
    by (simp add: example_host_def)
  have "''orders'' \<notin> set (getCustomizeNameList example_process)"
    and "''orders'' \<notin> set (getFunctionNameList example_process)"
    by (simp_all add: example_process_def boot_lists)
  with health_after_proxy_registration [OF f n r] show ?thesis
    by (auto simp: health_report names_val_def)
qed

section \<open>The start time\<close>

lemma step_startTime: "startTime (snd (step H a p)) = startTime p"
proof (cases a)
  case (RegisterProxy path config)
  then show ?thesis
    by (simp add: registerProxyHandler_def Let_def split: option.splits sum.splits)
qed (simp_all add: FireboomProxiesPlugin_def registerCustomize_def registerFunction_def)

lemma step_replies: "r \<in> set (fst (step H a p)) \<Longrightarrow> r = health p"
  by (cases a) simp_all

lemma run_time:
  "r \<in> set (fst (run H as p)) \<Longrightarrow> report_field r ''time'' = Inr (JStr (startTime p))"
proof (induction as arbitrary: p)
  case Nil
  then show ?case by simp
next
  case (Cons a as)
  from Cons.prems have "r \<in> set (fst (step H a p)) \<or> r \<in> set (fst (run H as (snd (step H a p))))"
    by (simp add: split_beta)
  then show ?case
  proof
    assume "r \<in> set (fst (step H a p))"
    then have "r = health p" by (rule step_replies)
    then show ?thesis by (simp add: health_report)
  next
    assume "r \<in> set (fst (run H as (snd (step H a p))))"
    then have "report_field r ''time'' = Inr (JStr (startTime (snd (step H a p))))"
      by (rule Cons.IH)
    then show ?thesis by (simp add: step_startTime)
  qed
qed

text \<open>
  C10. The start time is taken once, when health.ts is loaded at the start of the process;
  whatever happens afterwards and however far the clock has moved, every reply of the health
  endpoint carries that same time.
\<close>

theorem health_time_constant:
  "\<forall>r \<in> set (fst (run H as (boot toISO t))). report_field r ''time'' = Inr (JStr (toISO t))"
proof
  fix r assume "r \<in> set (fst (run H as (boot toISO t)))"
  from run_time [OF this] show "report_field r ''time'' = Inr (JStr (toISO t))"
    by (simp add: boot_def load_health_def)
qed

lemma example_run:
  "fst (run example_host
         [GetHealth, Tick 5000, RunProxiesPlugin [], RegisterProxy ''orders'' example_config,
          Tick 1, GetHealth]
         (boot string_of_nat 7)) =
   [JObj [(''status'', JStr ''ok''),
          (''report'', JObj [(''customizes'', JArr []), (''functions'', JArr []),
                             (''proxys'', JUndefined), (''time'', JStr ''7'')])],
    JObj [(''status'', JStr ''ok''),
          (''report'', JObj [(''customizes'', JArr []), (''functions'', JArr []),
                             (''proxys'', JArr [JStr ''orders'']), (''time'', JStr ''7'')])]]"
  by (simp add: health_def boot_def load_health_def FireboomProxiesPlugin_def
      registerProxyHandler_def example_host_def getproxyNameList_def getCustomizeNameList_def
      getFunctionNameList_def names_val_def opt_names_val_def string_of_nat.simps digit_char_def)

theorem health_time_constant_witness:
  "report_field (fst (run example_host
         [GetHealth, Tick 5000, RunProxiesPlugin [], RegisterProxy ''orders'' example_config,
          Tick 1, GetHealth]
         (boot string_of_nat 7)) ! 1) ''time'' = Inr (JStr (string_of_nat 7)) \<and>
   length (fst (run example_host
         [GetHealth, Tick 5000, RunProxiesPlugin [], RegisterProxy ''orders'' example_config,
          Tick 1, GetHealth]
         (boot string_of_nat 7))) = 2"
proof -
  let ?rs = "fst (run example_host
         [GetHealth, Tick 5000, RunProxiesPlugin [], RegisterProxy ''orders'' example_config,
          Tick 1, GetHealth]
         (boot string_of_nat 7))"
  have l: "length ?rs = 2" by (simp only: example_run) simp
  then have "?rs ! 1 \<in> set ?rs" by (intro nth_mem) simp
  with health_time_constant [of example_host _ string_of_nat 7] l show ?thesis by blast
qed

section \<open>The request context\<close>

lemma preHandler_Inr:
  assumes "preHandler apiBaseURL req = Inr (req', evs)"
  shows "\<exists>wg cr u.
      get_prop (body req) ''__wg'' = Inr wg \<and> get_prop wg ''clientRequest'' = Inr cr \<and>
      get_prop wg ''user'' = Inr u \<and>
      req' = req\<lparr>ctx := Some \<lparr>user = u, ctx_clientRequest = cr,
         operationsClient = \<lparr>baseURL = apiBaseURL, requestTimeoutMs = 3000, clientRequest = cr\<rparr>\<rparr>\<rparr> \<and>
      evs = [NewOperationsClient \<lparr>baseURL = apiBaseURL, requestTimeoutMs = 3000, clientRequest = cr\<rparr>,
             SetCtx \<lparr>user = u, ctx_clientRequest = cr,
         operationsClient = \<lparr>baseURL = apiBaseURL, requestTimeoutMs = 3000, clientRequest = cr\<rparr>\<rparr>]"
  using assms by (auto simp: preHandler_def Let_def split: sum.splits)

lemma get_prop_Inl: "get_prop v k = Inl e \<longleftrightarrow> (v = JUndefined \<or> v = JNull) \<and> e = TypeError"
  by (cases v) auto

lemma preHandler_Inl:
  "preHandler apiBaseURL req = Inl e \<longleftrightarrow>
   e = TypeError \<and>
   (body req = JUndefined \<or> body req = JNull \<or>
    get_prop (body req) ''__wg'' = Inr JUndefined \<or> get_prop (body req) ''__wg'' = Inr JNull)"
  by (auto simp: preHandler_def Let_def get_prop_Inl split: sum.splits)

lemma dispatch_proxy:
  "dispatch apiBaseURL (proxy_route_handler config) req =
   (case preHandler apiBaseURL req of
      Inl e \<Rightarrow> Inl e
    | Inr (req', evs) \<Rightarrow>
        Inr (config \<lparr>pr_body = body req', pr_headers = req_headers req',
                     pr_method = req_method req', pr_query = query req'\<rparr> (ctx req'),
             evs @ [CallHandler (ctx req')]))"
  by (simp add: dispatch_def proxy_route_handler_def Let_def split: sum.splits prod.splits)

lemma dispatch_with_envelope:
  assumes "get_prop (body req) ''__wg'' = Inr wg" and "wg \<noteq> JUndefined" and "wg \<noteq> JNull"
  shows "\<exists>cr u. get_prop wg ''clientRequest'' = Inr cr \<and> get_prop wg ''user'' = Inr u \<and>
      dispatch apiBaseURL (proxy_route_handler config) req =
      Inr (config \<lparr>pr_body = body req, pr_headers = req_headers req,
                   pr_method = req_method req, pr_query = query req\<rparr>
             (Some \<lparr>user = u, ctx_clientRequest = cr,
                    operationsClient = \<lparr>baseURL = apiBaseURL, requestTimeoutMs = 3000,
                                         clientRequest = cr\<rparr>\<rparr>),
           [NewOperationsClient \<lparr>baseURL = apiBaseURL, requestTimeoutMs = 3000, clientRequest = cr\<rparr>,
            SetCtx \<lparr>user = u, ctx_clientRequest = cr,
                    operationsClient = \<lparr>baseURL = apiBaseURL, requestTimeoutMs = 3000,
                                         clientRequest = cr\<rparr>\<rparr>,
            CallHandler (Some \<lparr>user = u, ctx_clientRequest = cr,
                    operationsClient = \<lparr>baseURL = apiBaseURL, requestTimeoutMs = 3000,
                                         clientRequest = cr\<rparr>\<rparr>)])"
proof -
  from assms(2,3) obtain cr u where cr: "get_prop wg ''clientRequest'' = Inr cr"
    and u: "get_prop wg ''user'' = Inr u"
    by (cases wg) auto
  from assms(1) cr u have "preHandler apiBaseURL req =
      Inr (req\<lparr>ctx := Some \<lparr>user = u, ctx_clientRequest = cr,
                    operationsClient = \<lparr>baseURL = apiBaseURL, requestTimeoutMs = 3000,
                                         clientRequest = cr\<rparr>\<rparr>\<rparr>,
           [NewOperationsClient \<lparr>baseURL = apiBaseURL, requestTimeoutMs = 3000, clientRequest = cr\<rparr>,
            SetCtx \<lparr>user = u, ctx_clientRequest = cr,
                    operationsClient = \<lparr>baseURL = apiBaseURL, requestTimeoutMs = 3000,
                                         clientRequest = cr\<rparr>\<rparr>])"
    by (simp add: preHandler_def Let_def)
  with cr u show ?thesis by (simp add: dispatch_proxy)
qed

text \<open>
  C5 (as amended). For every dispatched request whose body carries the \<open>__wg\<close> envelope,
  the context is built exactly once and before the handler: the hook constructs one client,
  assigns \<open>req.ctx\<close> once, and the handler is then called with that context. The client in
  it is bound to \<open>body.__wg.clientRequest\<close> and has the timeout 3000 whatever the request
  is. For a request whose body or envelope is undefined or null the hook throws: no context
  is built and the handler is not called.
\<close>

theorem preHandler_context_once:
  "(body req = JUndefined \<or> body req = JNull \<or>
    get_prop (body req) ''__wg'' = Inr JUndefined \<or> get_prop (body req) ''__wg'' = Inr JNull
      \<longrightarrow> preHandler apiBaseURL req = Inl TypeError \<and>
          dispatch apiBaseURL (proxy_route_handler config) req = Inl TypeError) \<and>
   (\<forall>wg. get_prop (body req) ''__wg'' = Inr wg \<and> wg \<noteq> JUndefined \<and> wg \<noteq> JNull
      \<longrightarrow> (\<exists>c evs.
            dispatch apiBaseURL (proxy_route_handler config) req =
              Inr (config \<lparr>pr_body = body req, pr_headers = req_headers req,
                           pr_method = req_method req, pr_query = query req\<rparr> (Some c), evs) \<and>
            evs = [NewOperationsClient (operationsClient c), SetCtx c, CallHandler (Some c)] \<and>
            length (filter is_SetCtx evs) = 1 \<and>
            get_prop wg ''clientRequest'' = Inr (clientRequest (operationsClient c)) \<and>
            ctx_clientRequest c = clientRequest (operationsClient c) \<and>
            get_prop wg ''user'' = Inr (user c) \<and>
            baseURL (operationsClient c) = apiBaseURL \<and>
            requestTimeoutMs (operationsClient c) = 3000))"
proof (intro conjI impI allI)
  assume a: "body req = JUndefined \<or> body req = JNull \<or>
    get_prop (body req) ''__wg'' = Inr JUndefined \<or> get_prop (body req) ''__wg'' = Inr JNull"
  then show p: "preHandler apiBaseURL req = Inl TypeError"
    by (simp add: preHandler_Inl)
  then show "dispatch apiBaseURL (proxy_route_handler config) req = Inl TypeError"
    by (simp add: dispatch_proxy)
next
  fix wg
  assume a: "get_prop (body req) ''__wg'' = Inr wg \<and> wg \<noteq> JUndefined \<and> wg \<noteq> JNull"
  then have w: "get_prop (body req) ''__wg'' = Inr wg" and u: "wg \<noteq> JUndefined" and n: "wg \<noteq> JNull"
    by simp_all
  from dispatch_with_envelope [OF w u n, of apiBaseURL config]
  obtain cr u where cr: "get_prop wg ''clientRequest'' = Inr cr"
    and us: "get_prop wg ''user'' = Inr u"
    and d: "dispatch apiBaseURL (proxy_route_handler config) req =
      Inr (config \<lparr>pr_body = body req, pr_headers = req_headers req,
                   pr_method = req_method req, pr_query = query req\<rparr>
             (Some \<lparr>user = u, ctx_clientRequest = cr,
                    operationsClient = \<lparr>baseURL = apiBaseURL, requestTimeoutMs = 3000,
                                         clientRequest = cr\<rparr>\<rparr>),
           [NewOperationsClient \<lparr>baseURL = apiBaseURL, requestTimeoutMs = 3000, clientRequest = cr\<rparr>,
            SetCtx \<lparr>user = u, ctx_clientRequest = cr,
                    operationsClient = \<lparr>baseURL = apiBaseURL, requestTimeoutMs = 3000,
                                         clientRequest = cr\<rparr>\<rparr>,
            CallHandler (Some \<lparr>user = u, ctx_clientRequest = cr,
                    operationsClient = \<lparr>baseURL = apiBaseURL, requestTimeoutMs = 3000,
                                         clientRequest = cr\<rparr>\<rparr>)])"
    by blast
  let ?c = "\<lparr>user = u, ctx_clientRequest = cr,
         operationsClient = \<lparr>baseURL = apiBaseURL, requestTimeoutMs = 3000, clientRequest = cr\<rparr>\<rparr>"
  let ?evs = "[NewOperationsClient (operationsClient ?c), SetCtx ?c, CallHandler (Some ?c)]"
  from d cr us
  have "dispatch apiBaseURL (proxy_route_handler config) req =
              Inr (config \<lparr>pr_body = body req, pr_headers = req_headers req,
                           pr_method = req_method req, pr_query = query req\<rparr> (Some ?c), ?evs) \<and>
            ?evs = [NewOperationsClient (operationsClient ?c), SetCtx ?c, CallHandler (Some ?c)] \<and>
            length (filter is_SetCtx ?evs) = 1 \<and>
            get_prop wg ''clientRequest'' = Inr (clientRequest (operationsClient ?c)) \<and>
            ctx_clientRequest ?c = clientRequest (operationsClient ?c) \<and>
            get_prop wg ''user'' = Inr (user ?c) \<and>
            baseURL (operationsClient ?c) = apiBaseURL \<and>
            requestTimeoutMs (operationsClient ?c) = 3000"
    by simp
  then show "\<exists>c evs.
            dispatch apiBaseURL (proxy_route_handler config) req =
              Inr (config \<lparr>pr_body = body req, pr_headers = req_headers req,
                           pr_method = req_method req, pr_query = query req\<rparr> (Some c), evs) \<and>
            evs = [NewOperationsClient (operationsClient c), SetCtx c, CallHandler (Some c)] \<and>
            length (filter is_SetCtx evs) = 1 \<and>
            get_prop wg ''clientRequest'' = Inr (clientRequest (operationsClient c)) \<and>
            ctx_clientRequest c = clientRequest (operationsClient c) \<and>
            get_prop wg ''user'' = Inr (user c) \<and>
            baseURL (operationsClient c) = apiBaseURL \<and>
            requestTimeoutMs (operationsClient c) = 3000"
    by (intro exI [of _ ?c] exI [of _ ?evs])
qed

lemma example_dispatch:
  "dispatch ''http://localhost:9991'' (proxy_route_handler echo_ctx) (example_request example_body) =
   Inr (Some example_ctx,
        [NewOperationsClient (operationsClient example_ctx), SetCtx example_ctx,
         CallHandler (Some example_ctx)])"
  by (simp add: dispatch_def preHandler_def proxy_route_handler_def example_request_def
      echo_ctx_def example_body_def example_ctx_def Let_def)

theorem preHandler_context_once_witness:
  "(\<exists>c. dispatch ''http://localhost:9991'' (proxy_route_handler echo_ctx)
          (example_request example_body) =
        Inr (Some c, [NewOperationsClient (operationsClient c), SetCtx c, CallHandler (Some c)]) \<and>
        clientRequest (operationsClient c) = JObj [(''method'', JStr ''GET'')] \<and>
        requestTimeoutMs (operationsClient c) = 3000) \<and>
   dispatch ''http://localhost:9991'' (proxy_route_handler echo_ctx) (example_request JNull) =
     Inl TypeError"
proof
  have w: "get_prop (body (example_request example_body)) ''__wg'' =
        Inr (JObj [(''clientRequest'', JObj [(''method'', JStr ''GET'')])]) \<and>
      JObj [(''clientRequest'', JObj [(''method'', JStr ''GET'')])] \<noteq> JUndefined \<and>
      JObj [(''clientRequest'', JObj [(''method'', JStr ''GET'')])] \<noteq> JNull"
    by (simp add: example_request_def example_body_def)
  from preHandler_context_once [of "example_request example_body" "''http://localhost:9991''" echo_ctx] w
  obtain c evs where
    d: "dispatch ''http://localhost:9991'' (proxy_route_handler echo_ctx) (example_request example_body) =
        Inr (echo_ctx \<lparr>pr_body = body (example_request example_body),
                       pr_headers = req_headers (example_request example_body),
                       pr_method = req_method (example_request example_body),
                       pr_query = query (example_request example_body)\<rparr> (Some c), evs)"
    and e: "evs = [NewOperationsClient (operationsClient c), SetCtx c, CallHandler (Some c)]"
    and r: "get_prop (JObj [(''clientRequest'', JObj [(''method'', JStr ''GET'')])]) ''clientRequest'' =
        Inr (clientRequest (operationsClient c))"
    and t: "requestTimeoutMs (operationsClient c) = 3000"
    by blast
  from d e r t
  have "dispatch ''http://localhost:9991'' (proxy_route_handler echo_ctx)
          (example_request example_body) =
        Inr (Some c, [NewOperationsClient (operationsClient c), SetCtx c, CallHandler (Some c)]) \<and>
        clientRequest (operationsClient c) = JObj [(''method'', JStr ''GET'')] \<and>
        requestTimeoutMs (operationsClient c) = 3000"
    by (simp add: echo_ctx_def)
  then show "\<exists>c. dispatch ''http://localhost:9991'' (proxy_route_handler echo_ctx)
          (example_request example_body) =
        Inr (Some c, [NewOperationsClient (operationsClient c), SetCtx c, CallHandler (Some c)]) \<and>
        clientRequest (operationsClient c) = JObj [(''method'', JStr ''GET'')] \<and>
        requestTimeoutMs (operationsClient c) = 3000" ..
  have "body (example_request JNull) = JNull" by (simp add: example_request_def)
  with preHandler_context_once [of "example_request JNull" "''http://localhost:9991''" echo_ctx]
  show "dispatch ''http://localhost:9991'' (proxy_route_handler echo_ctx) (example_request JNull) =
     Inl TypeError"
    by blast
qed

text \<open>
  C5 as stated fails: a \<open>GET\<close> without a body is dispatched to the hook like any other
  request of the route; the hook throws on it, so that no context is built and the handler
  is not called.
\<close>

theorem preHandler_context_once_counterexample:
  "preHandler ''http://localhost:9991''
     \<lparr>body = JUndefined, req_headers = no_headers, req_method = ''GET'', query = JObj [],
      ctx = None\<rparr> = Inl TypeError \<and>
   dispatch ''http://localhost:9991'' (proxy_route_handler echo_ctx)
     \<lparr>body = JUndefined, req_headers = no_headers, req_method = ''GET'', query = JObj [],
      ctx = None\<rparr> = Inl TypeError"
  by (simp add: dispatch_def preHandler_def)

text \<open>
  C6. A request whose envelope holds the caller request and no \<open>user\<close> gets its context,
  with \<open>user\<close> undefined, and its handler is called with it.
\<close>

theorem preHandler_missing_user:
  assumes "body req = JObj b" and "map_of b ''__wg'' = Some (JObj wg)"
    and "map_of wg ''clientRequest'' = Some cr" and "map_of wg ''user'' = None"
  shows "dispatch apiBaseURL (proxy_route_handler config) req =
     Inr (config \<lparr>pr_body = body req, pr_headers = req_headers req,
                  pr_method = req_method req, pr_query = query req\<rparr>
            (Some \<lparr>user = JUndefined, ctx_clientRequest = cr,
                   operationsClient = \<lparr>baseURL = apiBaseURL, requestTimeoutMs = 3000,
                                        clientRequest = cr\<rparr>\<rparr>),
          [NewOperationsClient \<lparr>baseURL = apiBaseURL, requestTimeoutMs = 3000, clientRequest = cr\<rparr>,
           SetCtx \<lparr>user = JUndefined, ctx_clientRequest = cr,
                   operationsClient = \<lparr>baseURL = apiBaseURL, requestTimeoutMs = 3000,
                                        clientRequest = cr\<rparr>\<rparr>,
           CallHandler (Some \<lparr>user = JUndefined, ctx_clientRequest = cr,
                   operationsClient = \<lparr>baseURL = apiBaseURL, requestTimeoutMs = 3000,
                                        clientRequest = cr\<rparr>\<rparr>)])"
  using assms by (simp add: dispatch_proxy preHandler_def Let_def)

theorem preHandler_missing_user_witness:
  "dispatch ''http://localhost:9991'' (proxy_route_handler echo_ctx) (example_request example_body) =
   Inr (Some example_ctx,
        [NewOperationsClient (operationsClient example_ctx), SetCtx example_ctx,
         CallHandler (Some example_ctx)]) \<and>
   user example_ctx = JUndefined"
  using preHandler_missing_user [of "example_request example_body"
      "[(''__wg'', JObj [(''clientRequest'', JObj [(''method'', JStr ''GET'')])])]"
      "[(''clientRequest'', JObj [(''method'', JStr ''GET'')])]"
      "JObj [(''method'', JStr ''GET'')]" "''http://localhost:9991''" echo_ctx]
  by (simp add: example_request_def example_body_def echo_ctx_def example_ctx_def)

text \<open>
  C7 (as amended). The hook fails a request exactly when its body or the \<open>__wg\<close> field of
  its body is undefined or null: it throws a \<open>TypeError\<close>, sets no context, and the handler
  is not called. Every other request gets a context and its handler is called, also when
  the envelope has no \<open>clientRequest\<close>: the context then holds \<open>undefined\<close> as caller
  request.
\<close>

theorem preHandler_envelope:
  "(body req = JUndefined \<or> body req = JNull \<or>
    get_prop (body req) ''__wg'' = Inr JUndefined \<or> get_prop (body req) ''__wg'' = Inr JNull
      \<longrightarrow> preHandler apiBaseURL req = Inl TypeError \<and>
          dispatch apiBaseURL (proxy_route_handler config) req = Inl TypeError) \<and>
   (\<forall>wg. get_prop (body req) ''__wg'' = Inr wg \<and> wg \<noteq> JUndefined \<and> wg \<noteq> JNull
      \<longrightarrow> (\<exists>c r. dispatch apiBaseURL (proxy_route_handler config) req =
                   Inr (r, [NewOperationsClient (operationsClient c), SetCtx c,
                            CallHandler (Some c)]) \<and>
                 get_prop wg ''clientRequest'' = Inr (ctx_clientRequest c) \<and>
                 get_prop wg ''clientRequest'' = Inr (clientRequest (operationsClient c))))"
proof (intro conjI impI allI)
  assume a: "body req = JUndefined \<or> body req = JNull \<or>
    get_prop (body req) ''__wg'' = Inr JUndefined \<or> get_prop (body req) ''__wg'' = Inr JNull"
  then show p: "preHandler apiBaseURL req = Inl TypeError"
    by (simp add: preHandler_Inl)
  then show "dispatch apiBaseURL (proxy_route_handler config) req = Inl TypeError"
    by (simp add: dispatch_proxy)
next
  fix wg
  assume a: "get_prop (body req) ''__wg'' = Inr wg \<and> wg \<noteq> JUndefined \<and> wg \<noteq> JNull"
  then obtain cr u where cr: "get_prop wg ''clientRequest'' = Inr cr"
    and u: "get_prop wg ''user'' = Inr u"
    by (cases wg) auto
  let ?c = "\<lparr>user = u, ctx_clientRequest = cr,
         operationsClient = \<lparr>baseURL = apiBaseURL, requestTimeoutMs = 3000, clientRequest = cr\<rparr>\<rparr>"
  from a cr u have "preHandler apiBaseURL req =
      Inr (req\<lparr>ctx := Some ?c\<rparr>, [NewOperationsClient (operationsClient ?c), SetCtx ?c])"
    by (simp add: preHandler_def Let_def)
  then have "dispatch apiBaseURL (proxy_route_handler config) req =
      Inr (config \<lparr>pr_body = body req, pr_headers = req_headers req,
                   pr_method = req_method req, pr_query = query req\<rparr> (Some ?c),
           [NewOperationsClient (operationsClient ?c), SetCtx ?c, CallHandler (Some ?c)])"
    by (simp add: dispatch_proxy)
  with cr show "\<exists>c r. dispatch apiBaseURL (proxy_route_handler config) req =
                   Inr (r, [NewOperationsClient (operationsClient c), SetCtx c,
                            CallHandler (Some c)]) \<and>
                 get_prop wg ''clientRequest'' = Inr (ctx_clientRequest c) \<and>
                 get_prop wg ''clientRequest'' = Inr (clientRequest (operationsClient c))"
    by (intro exI [of _ ?c] exI) simp
qed

theorem preHandler_envelope_witness:
  "dispatch ''http://localhost:9991'' (proxy_route_handler echo_ctx) (example_request JUndefined) =
     Inl TypeError \<and>
   dispatch ''http://localhost:9991'' (proxy_route_handler echo_ctx)
     (example_request (JObj [(''clientRequest'', JStr ''r'')])) = Inl TypeError"
  using preHandler_envelope [of "example_request JUndefined" "''http://localhost:9991''" echo_ctx]
    preHandler_envelope [of "example_request (JObj [(''clientRequest'', JStr ''r'')])"
      "''http://localhost:9991''" echo_ctx]
  by (simp add: example_request_def)

text \<open>
  C7 as stated fails: a request whose envelope has no \<open>clientRequest\<close> is not failed; the
  hook hands \<open>undefined\<close> on as the caller request and the handler is called.
\<close>

theorem preHandler_envelope_counterexample:
  "dispatch ''http://localhost:9991'' (proxy_route_handler echo_ctx)
     (example_request (JObj [(''__wg'', JObj [])])) =
   Inr (Some \<lparr>user = JUndefined, ctx_clientRequest = JUndefined,
              operationsClient = \<lparr>baseURL = ''http://localhost:9991'', requestTimeoutMs = 3000,
                                   clientRequest = JUndefined\<rparr>\<rparr>,
        [NewOperationsClient \<lparr>baseURL = ''http://localhost:9991'', requestTimeoutMs = 3000,
                              clientRequest = JUndefined\<rparr>,
         SetCtx \<lparr>user = JUndefined, ctx_clientRequest = JUndefined,
              operationsClient = \<lparr>baseURL = ''http://localhost:9991'', requestTimeoutMs = 3000,
                                   clientRequest = JUndefined\<rparr>\<rparr>,
         CallHandler (Some \<lparr>user = JUndefined, ctx_clientRequest = JUndefined,
              operationsClient = \<lparr>baseURL = ''http://localhost:9991'', requestTimeoutMs = 3000,
                                   clientRequest = JUndefined\<rparr>\<rparr>)])"
  by (simp add: dispatch_def preHandler_def proxy_route_handler_def example_request_def
      echo_ctx_def Let_def)

section \<open>The extension loader\<close>

lemma require_all_append:
  "require_all req (es @ es') w =
   (case require_all req es w of Inl e \<Rightarrow> Inl e | Inr w' \<Rightarrow> require_all req es' w')"
  by (induction es arbitrary: w) (simp_all split: sum.splits)

lemma require_all_throws:
  assumes "require_all req es w = Inr w'" and "req e w' = Inl err"
  shows "require_all req (es @ e # es') w = Inl err"
  using assms by (simp add: require_all_append)

lemma require_all_each:
  assumes "require_all req (es @ e # es') w = Inr w''"
  shows "\<exists>w1 w2. require_all req es w = Inr w1 \<and> req e w1 = Inr w2"
  using assms by (auto simp: require_all_append split: sum.splits)

lemma load_extensions_loop:
  "(scan L = es @ e # es' \<and> require_all (require L) es w = Inr w1 \<and> require L e w1 = Inl err
      \<longrightarrow> load_extensions L w = Inl err) \<and>
   (load_extensions L w = Inr w' \<and> scan L = es @ e # es'
      \<longrightarrow> (\<exists>w1 w2. require_all (require L) es w = Inr w1 \<and> require L e w1 = Inr w2))"
proof (intro conjI impI)
  assume "scan L = es @ e # es' \<and> require_all (require L) es w = Inr w1 \<and>
      require L e w1 = Inl err"
  then show "load_extensions L w = Inl err"
    by (simp add: load_extensions_def require_all_throws)
next
  assume "load_extensions L w = Inr w' \<and> scan L = es @ e # es'"
  then have "require_all (require L) (es @ e # es') w = Inr w'"
    by (auto simp: load_extensions_def)
  then show "\<exists>w1 w2. require_all (require L) es w = Inr w1 \<and> require L e w1 = Inr w2"
    by (rule require_all_each)
qed

lemma register_import_proxies:
  "register_import L proxy_exports ''FireboomProxiesPlugun'' w =
   Inl (Thrown ''plugin must be a function or a promise'')"
  by (simp add: register_import_def proxy_exports_def)

text \<open>
  C8. The claim does not hold of the code: server.ts registers the proxy plugin under the
  name \<open>FireboomProxiesPlugun\<close>, which \<open>./proxy\<close> does not export, so the registration
  throws and \<open>startServer\<close> is rejected before the scan: whatever the file system holds
  and whatever the files would do, no file is enumerated or loaded and \<open>listen\<close> is not
  reached.
\<close>

theorem startServer_stops_at_registration:
  "startServer L w =
     (case register L ''FireboomHooksPlugun'' w of
        Inl e \<Rightarrow> Inl e
      | Inr w1 \<Rightarrow>
         (case register L ''FireboomCustomizesPlugun'' w1 of
            Inl e \<Rightarrow> Inl e
          | Inr w2 \<Rightarrow> Inl (Thrown ''plugin must be a function or a promise''))) \<and>
   (\<forall>s. startServer L w \<noteq> Inr s) \<and>
   startServer (L\<lparr>glob := g, require := r\<rparr>) w = startServer L w"
  by (simp add: startServer_def register_import_proxies split: sum.splits)

theorem startServer_stops_at_registration_witness:
  "startServer (example_loader (Some ''production'')) [] =
     Inl (Thrown ''plugin must be a function or a promise'') \<and>
   startServer (example_loader None) [] =
     Inl (Thrown ''plugin must be a function or a promise'')"
  using startServer_stops_at_registration [of "example_loader (Some ''production'')" "[]"]
    startServer_stops_at_registration [of "example_loader None" "[]"]
  by (simp add: example_loader_def)

section \<open>Shutdown\<close>

lemma shutdown_callback_start:
  "fst (shutdown_callback err outcome) =
   (case err of Some e \<Rightarrow> [(0, LogError e)] | None \<Rightarrow> []) @ [(0, FastifyClose)] @
   (case outcome of Resolves d \<Rightarrow> [(d, LogClosed)] | Rejects d e \<Rightarrow> [] | Pending \<Rightarrow> [])"
  by (simp add: shutdown_callback_def Let_def split: close_outcome.splits)





end
